theory Spec2Isabelle
  imports Complex_Main
begin

section \<open>Python and numpy values\<close>

text \<open>
  The engine of \<^verbatim>\<open>disected_mmDTW.py\<close> computes on 64-bit floats. The grading policy
  branches on comparisons only, and a float that is not a number makes every comparison
  false, so the values the policy receives are modelled with the special values written
  out: a finite value (a real: rounding is not modelled), the two infinities, and NaN.
\<close>

datatype pyfloat = Fin real | PInf | NInf | NaN

text \<open>
  The exceptions that the modelled code can let through: \<^verbatim>\<open>ValueError\<close> and
  \<^verbatim>\<open>TypeError\<close> of numpy, and the \<^verbatim>\<open>InvalidInputError\<close> that the specification gives
  to the alignment routine.
\<close>

datatype error = ValueError | TypeError | InvalidInputError

text \<open>\<^verbatim>\<open>a < b\<close> and \<^verbatim>\<open>a <= b\<close> on floats: false as soon as one side is NaN.\<close>

fun fl_lt :: "pyfloat \<Rightarrow> pyfloat \<Rightarrow> bool" where
  "fl_lt NaN b = False"
| "fl_lt a NaN = False"
| "fl_lt (Fin a) (Fin b) = (a < b)"
| "fl_lt (Fin a) PInf = True"
| "fl_lt (Fin a) NInf = False"
| "fl_lt PInf b = False"
| "fl_lt NInf NInf = False"
| "fl_lt NInf b = True"

fun fl_le :: "pyfloat \<Rightarrow> pyfloat \<Rightarrow> bool" where
  "fl_le NaN b = False"
| "fl_le a NaN = False"
| "fl_le (Fin a) (Fin b) = (a \<le> b)"
| "fl_le (Fin a) PInf = True"
| "fl_le (Fin a) NInf = False"
| "fl_le PInf PInf = True"
| "fl_le PInf b = False"
| "fl_le NInf b = True"

text \<open>\<^verbatim>\<open>a > b\<close> and \<^verbatim>\<open>a >= b\<close>.\<close>

definition fl_gt :: "pyfloat \<Rightarrow> pyfloat \<Rightarrow> bool" where
  "fl_gt a b = fl_lt b a"

definition fl_ge :: "pyfloat \<Rightarrow> pyfloat \<Rightarrow> bool" where
  "fl_ge a b = fl_le b a"

text \<open>
  Division and multiplication of a float by a positive finite constant, the only
  arithmetic of the grading policy (\<^verbatim>\<open>limit / 5.0\<close>, \<^verbatim>\<open>step * 2\<close>): infinities and NaN
  go through unchanged.
\<close>

fun fl_div_const :: "pyfloat \<Rightarrow> real \<Rightarrow> pyfloat" where
  "fl_div_const (Fin a) c = Fin (a / c)"
| "fl_div_const PInf c = PInf"
| "fl_div_const NInf c = NInf"
| "fl_div_const NaN c = NaN"

fun fl_mul_const :: "pyfloat \<Rightarrow> real \<Rightarrow> pyfloat" where
  "fl_mul_const (Fin a) c = Fin (a * c)"
| "fl_mul_const PInf c = PInf"
| "fl_mul_const NInf c = NInf"
| "fl_mul_const NaN c = NaN"

section \<open>Grade policy\<close>

text \<open>
  \<^verbatim>\<open>get_rom_grade(ratio)\<close>, lines 64 to 86. The function ends after the overshooting
  block with no \<^verbatim>\<open>return\<close>: a call that passes every \<^verbatim>\<open>if\<close> returns Python's
  \<^verbatim>\<open>None\<close>, which is \<open>None\<close> here; a returned grade is \<open>Some g\<close>.
\<close>

definition get_rom_grade :: "pyfloat \<Rightarrow> int option" where
  "get_rom_grade ratio =
     (if fl_lt ratio (Fin 0.50) \<or> fl_gt ratio (Fin 1.50) then Some 0
      else if fl_le (Fin 0.95) ratio \<and> fl_le ratio (Fin 1.05) then Some 10
      else if fl_lt ratio (Fin 0.95) then
        (if fl_ge ratio (Fin 0.90) then Some 9
         else if fl_ge ratio (Fin 0.70) then Some 8
         else Some 7)
      else if fl_gt ratio (Fin 1.05) then
        (if fl_le ratio (Fin 1.10) then Some 9
         else if fl_le ratio (Fin 1.30) then Some 8
         else Some 7)
      else None)"

text \<open>\<^verbatim>\<open>get_shape_grade(rmse, limit)\<close>, lines 88 to 101.\<close>

definition get_shape_grade :: "pyfloat \<Rightarrow> pyfloat \<Rightarrow> int" where
  "get_shape_grade rmse limit =
     (if fl_gt rmse limit then 0
      else
        let step = fl_div_const limit 5.0 in
        if fl_le rmse step then 10
        else if fl_le rmse (fl_mul_const step 2) then 9
        else if fl_le rmse (fl_mul_const step 3) then 8
        else if fl_le rmse (fl_mul_const step 4) then 7
        else 6)"

text \<open>
  \<^verbatim>\<open>np.mean(rom_axis_grades)\<close>, line 240 (and line 242 of \<^verbatim>\<open>server.py\<close>), on the Python
  list of the grades. numpy adds the elements up: a \<^verbatim>\<open>None\<close> among them makes the
  sum \<^verbatim>\<open>int + NoneType\<close>, a \<^verbatim>\<open>TypeError\<close>. The mean of an empty list is NaN.
\<close>

fun sum_grades :: "int option list \<Rightarrow> int option" where
  "sum_grades [] = Some 0"
| "sum_grades (None # gs) = None"
| "sum_grades (Some g # gs) = (case sum_grades gs of None \<Rightarrow> None | Some s \<Rightarrow> Some (g + s))"

definition np_mean_grades :: "int option list \<Rightarrow> error + pyfloat" where
  "np_mean_grades gs =
     (case sum_grades gs of
        None \<Rightarrow> Inl TypeError
      | Some s \<Rightarrow> if gs = [] then Inr NaN else Inr (Fin (real_of_int s / real (length gs))))"

text \<open>
  The status line of the range of motion, lines 155 to 164 of
  \<^verbatim>\<open>generate_therapist_report\<close>: the five lines the report can append, and the chain
  of tests that picks one.
\<close>

definition CRITICAL_FAILURE :: string where
  "CRITICAL_FAILURE = ''  > STATUS: CRITICAL FAILURE (Wrong Motion)''"

definition EXCELLENT :: string where
  "EXCELLENT = ''  > STATUS: EXCELLENT ROM''"

definition RESTRICTED :: string where
  "RESTRICTED = ''  > STATUS: RESTRICTED (Too Small)''"

definition EXCESSIVE :: string where
  "EXCESSIVE = ''  > STATUS: EXCESSIVE (Too Large)''"

definition MILD_DEVIATION :: string where
  "MILD_DEVIATION = ''  > STATUS: MILD DEVIATION''"

definition rom_status :: "pyfloat \<Rightarrow> pyfloat \<Rightarrow> string" where
  "rom_status rom_ratio avg_rom_grade =
     (if fl_lt avg_rom_grade (Fin 1) then CRITICAL_FAILURE
      else if fl_ge avg_rom_grade (Fin 9) then EXCELLENT
      else if fl_lt rom_ratio (Fin 0.90) then RESTRICTED
      else if fl_gt rom_ratio (Fin 1.10) then EXCESSIVE
      else MILD_DEVIATION)"

section \<open>Trajectories\<close>

text \<open>
  A trajectory is the values of an \<open>N \<times> 3\<close> numpy array: a list of points
  \<open>(x, y, z)\<close>. The coordinates are reals: the callers drop missing values before the
  engine runs (\<^verbatim>\<open>dropna\<close>, line 43). On trajectories the arithmetic is that of the
  reals: rounding and overflow of floats are not modelled. The dtype of an array, and
  the infinities and NaN that a division can return, are modelled in the section on
  arrays with their dtype below.
\<close>

type_synonym point = "real \<times> real \<times> real"
type_synonym trajectory = "point list"

definition px :: "point \<Rightarrow> real" where "px p = fst p"
definition py :: "point \<Rightarrow> real" where "py p = fst (snd p)"
definition pz :: "point \<Rightarrow> real" where "pz p = snd (snd p)"

text \<open>
  \<^verbatim>\<open>np.mean(a, axis=0)\<close> of a trajectory: the centroid. On an empty trajectory numpy
  returns NaN for each axis (with a warning, no exception); the model's value there is
  never read, because the callers subtract it from each point of the same, empty,
  trajectory.
\<close>

definition np_mean_axis0 :: "trajectory \<Rightarrow> point" where
  "np_mean_axis0 a =
     (sum_list (map px a) / real (length a),
      sum_list (map py a) / real (length a),
      sum_list (map pz a) / real (length a))"

text \<open>\<^verbatim>\<open>a - c\<close>, a point subtracted from every row (broadcasting): a new array.\<close>

definition sub_point :: "point \<Rightarrow> point \<Rightarrow> point" where
  "sub_point p c = (px p - px c, py p - py c, pz p - pz c)"

definition np_sub_rows :: "trajectory \<Rightarrow> point \<Rightarrow> trajectory" where
  "np_sub_rows a c = map (\<lambda>p. sub_point p c) a"

text \<open>
  \<^verbatim>\<open>np.ptp(a, axis=0)\<close>: maximum minus minimum of each axis. The reduction has no
  identity, so numpy raises \<^verbatim>\<open>ValueError\<close> on an empty trajectory.
\<close>

fun ptp :: "real list \<Rightarrow> real" where
  "ptp [] = 0"
| "ptp (v # vs) = fold max vs v - fold min vs v"

definition np_ptp_axis0 :: "trajectory \<Rightarrow> error + point" where
  "np_ptp_axis0 a =
     (if a = [] then Inl ValueError
      else Inr (ptp (map px a), ptp (map py a), ptp (map pz a)))"

section \<open>Range of motion\<close>

text \<open>
  \<^verbatim>\<open>ref_range[ref_range == 0] = 1e-6\<close>, line 56, on an array of dtype float64: every
  component that is zero is overwritten with the epsilon. (An array of dtype int64
  stores the integer part of the epsilon, see \<open>assign_where_zero\<close> below.)
\<close>

definition replace_zero :: "real \<Rightarrow> real" where
  "replace_zero r = (if r = 0 then 0.000001 else r)"

definition mask_assign_zero :: "point \<Rightarrow> point" where
  "mask_assign_zero v = (replace_zero (px v), replace_zero (py v), replace_zero (pz v))"

text \<open>\<^verbatim>\<open>pat_range / ref_range\<close>, componentwise, and \<^verbatim>\<open>np.mean\<close> of a 3-vector.\<close>

definition vec_div :: "point \<Rightarrow> point \<Rightarrow> point" where
  "vec_div a b = (px a / px b, py a / py b, pz a / pz b)"

definition vec_mean :: "point \<Rightarrow> real" where
  "vec_mean v = (px v + py v + pz v) / 3"

text \<open>
  \<^verbatim>\<open>calculate_rom_metrics(ref_data, pat_data)\<close>, lines 47 to 62, on the values of two
  arrays of dtype float64, in the arithmetic of the reals. The result is the pair
  \<^verbatim>\<open>(avg_rom_ratio, ratios)\<close>. After line 56 no range of the reference is zero, so no
  division is by zero.
\<close>

definition calculate_rom_metrics :: "trajectory \<Rightarrow> trajectory \<Rightarrow> error + (real \<times> point)" where
  "calculate_rom_metrics ref_data pat_data =
     (case np_ptp_axis0 ref_data of
        Inl e \<Rightarrow> Inl e
      | Inr ref_range \<Rightarrow>
          (case np_ptp_axis0 pat_data of
             Inl e \<Rightarrow> Inl e
           | Inr pat_range \<Rightarrow>
               let ref_range' = mask_assign_zero ref_range;
                   ratios = vec_div pat_range ref_range';
                   avg_rom_ratio = vec_mean ratios
               in Inr (avg_rom_ratio, ratios)))"

section \<open>Arrays with their dtype\<close>

text \<open>
  \<^verbatim>\<open>extract_hand_data\<close> returns \<^verbatim>\<open>df[selected_cols].dropna().values\<close>: an array of
  dtype float64, or of dtype int64 when every cell of the three columns is a whole
  number. An array is its dtype with its values.
\<close>

datatype array = FloatArr trajectory | IntArr "(int \<times> int \<times> int) list"

definition real_point :: "int \<times> int \<times> int \<Rightarrow> point" where
  "real_point p = (real_of_int (fst p), real_of_int (fst (snd p)), real_of_int (snd (snd p)))"

text \<open>
  The values of an array as floats, which is what \<^verbatim>\<open>a - np.mean(a, axis=0)\<close> computes
  on: the mean of an array of either dtype is of dtype float64.
\<close>

fun array_values :: "array \<Rightarrow> trajectory" where
  "array_values (FloatArr a) = a"
| "array_values (IntArr a) = map real_point a"

text \<open>
  The result of an operation on floats, as IEEE 754 has it: a result whose magnitude
  reaches \<open>2 ^ 1024 - 2 ^ 970\<close>, half a unit in the last place above the largest float,
  is an infinity. The rounding of the other results and the sign of zero are not
  modelled.
\<close>

definition float_overflow :: real where
  "float_overflow = 2 ^ 1024 - 2 ^ 970"

definition fl_round :: "real \<Rightarrow> pyfloat" where
  "fl_round x =
     (if float_overflow \<le> x then PInf
      else if x \<le> - float_overflow then NInf
      else Fin x)"

text \<open>
  \<^verbatim>\<open>a + b\<close> and \<^verbatim>\<open>a / b\<close> on floats in numpy: a division by zero returns an infinity,
  or NaN for \<^verbatim>\<open>0 / 0\<close>, with a warning and no exception.
\<close>

fun fl_add :: "pyfloat \<Rightarrow> pyfloat \<Rightarrow> pyfloat" where
  "fl_add NaN b = NaN"
| "fl_add a NaN = NaN"
| "fl_add (Fin a) (Fin b) = fl_round (a + b)"
| "fl_add (Fin a) b = b"
| "fl_add a (Fin b) = a"
| "fl_add PInf PInf = PInf"
| "fl_add NInf NInf = NInf"
| "fl_add a b = NaN"

fun fl_div :: "pyfloat \<Rightarrow> pyfloat \<Rightarrow> pyfloat" where
  "fl_div NaN b = NaN"
| "fl_div a NaN = NaN"
| "fl_div (Fin a) (Fin b) =
     (if b = 0 then (if a = 0 then NaN else if 0 < a then PInf else NInf)
      else fl_round (a / b))"
| "fl_div (Fin a) b = Fin 0"
| "fl_div PInf (Fin b) = (if 0 \<le> b then PInf else NInf)"
| "fl_div NInf (Fin b) = (if 0 \<le> b then NInf else PInf)"
| "fl_div a b = NaN"

text \<open>A vector of three floats, one for each axis.\<close>

type_synonym fvec = "pyfloat \<times> pyfloat \<times> pyfloat"

definition fx :: "fvec \<Rightarrow> pyfloat" where "fx v = fst v"
definition fy :: "fvec \<Rightarrow> pyfloat" where "fy v = fst (snd v)"
definition fz :: "fvec \<Rightarrow> pyfloat" where "fz v = snd (snd v)"

text \<open>
  \<^verbatim>\<open>np.ptp(a, axis=0)\<close> keeps the dtype of the array. On 64-bit integers the
  subtraction wraps around.
\<close>

definition wrap64 :: "int \<Rightarrow> int" where
  "wrap64 x = (x + 2 ^ 63) mod 2 ^ 64 - 2 ^ 63"

fun iptp :: "int list \<Rightarrow> int" where
  "iptp [] = 0"
| "iptp (v # vs) = wrap64 (fold max vs v - fold min vs v)"

datatype range_vec = FloatVec fvec | IntVec "int \<times> int \<times> int"

definition np_ptp :: "array \<Rightarrow> error + range_vec" where
  "np_ptp a =
     (case a of
        FloatArr t \<Rightarrow>
          (case np_ptp_axis0 t of
             Inl e \<Rightarrow> Inl e
           | Inr v \<Rightarrow> Inr (FloatVec (fl_round (px v), fl_round (py v), fl_round (pz v))))
      | IntArr t \<Rightarrow>
          if t = [] then Inl ValueError
          else Inr (IntVec (iptp (map fst t), iptp (map (\<lambda>p. fst (snd p)) t),
                            iptp (map (\<lambda>p. snd (snd p)) t))))"

text \<open>
  \<^verbatim>\<open>ref_range[ref_range == 0] = 1e-6\<close>, line 56. The value is cast to the dtype of the
  array: a float array stores the epsilon, an integer array stores its integer part,
  which is 0.
\<close>

definition int_cast :: "real \<Rightarrow> int" where
  "int_cast x = (if 0 \<le> x then \<lfloor>x\<rfloor> else \<lceil>x\<rceil>)"

definition float_where_zero :: "pyfloat \<Rightarrow> pyfloat" where
  "float_where_zero r = (if r = Fin 0 then Fin 0.000001 else r)"

definition int_where_zero :: "int \<Rightarrow> int" where
  "int_where_zero r = (if r = 0 then int_cast 0.000001 else r)"

definition assign_where_zero :: "range_vec \<Rightarrow> range_vec" where
  "assign_where_zero v =
     (case v of
        FloatVec u \<Rightarrow>
          FloatVec (float_where_zero (fx u), float_where_zero (fy u), float_where_zero (fz u))
      | IntVec (a, b, c) \<Rightarrow> IntVec (int_where_zero a, int_where_zero b, int_where_zero c))"

text \<open>
  \<^verbatim>\<open>pat_range / ref_range\<close>: the true division of numpy takes integers to floats and
  returns floats.
\<close>

fun to_float :: "range_vec \<Rightarrow> fvec" where
  "to_float (FloatVec u) = u"
| "to_float (IntVec (a, b, c)) = (Fin (real_of_int a), Fin (real_of_int b), Fin (real_of_int c))"

definition np_true_divide :: "range_vec \<Rightarrow> range_vec \<Rightarrow> fvec" where
  "np_true_divide u v =
     (let a = to_float u; b = to_float v
      in (fl_div (fx a) (fx b), fl_div (fy a) (fy b), fl_div (fz a) (fz b)))"

text \<open>\<^verbatim>\<open>np.mean(ratios)\<close>: the sum of the three ratios, divided by their number.\<close>

definition np_mean3 :: "fvec \<Rightarrow> pyfloat" where
  "np_mean3 v = fl_div (fl_add (fl_add (fx v) (fy v)) (fz v)) (Fin 3)"

text \<open>
  \<^verbatim>\<open>calculate_rom_metrics(ref_data, pat_data)\<close>, lines 47 to 62, on two arrays of either
  dtype, with the floats it returns. On float arrays whose ranges and ratios do not
  overflow it is \<open>calculate_rom_metrics\<close> above.
\<close>

definition calculate_rom_metrics_np :: "array \<Rightarrow> array \<Rightarrow> error + (pyfloat \<times> fvec)" where
  "calculate_rom_metrics_np ref_data pat_data =
     (case np_ptp ref_data of
        Inl e \<Rightarrow> Inl e
      | Inr ref_range \<Rightarrow>
          (case np_ptp pat_data of
             Inl e \<Rightarrow> Inl e
           | Inr pat_range \<Rightarrow>
               let ref_range' = assign_where_zero ref_range;
                   ratios = np_true_divide pat_range ref_range';
                   avg_rom_ratio = np_mean3 ratios
               in Inr (avg_rom_ratio, ratios)))"

section \<open>Alignment\<close>

text \<open>
  Modelled from the spec: \<^verbatim>\<open>dtw_path\<close>, which line 6 imports from the library
  \<^verbatim>\<open>tslearn.metrics\<close>; its code is not part of the repository's sources. The model is
  the dynamic program of the spec's section 4.2: the local cost of a cell is the squared
  Euclidean distance of the two points; the band holds the cells with
  \<open>|i - j| \<le> max radius |n - m|\<close>; the cumulative cost of a cell is its local cost
  plus the least cumulative cost among its predecessors \<open>(i-1, j-1)\<close>, \<open>(i-1, j)\<close>,
  \<open>(i, j-1)\<close> that are in the grid and in the band, the first of them in this order on a
  tie; the path is followed back from the end cell and reversed; the distance is the
  square root of the cumulative cost of the end cell; the routine signals an
  \<^verbatim>\<open>InvalidInputError\<close> if either trajectory has fewer than 2 points.

  With a band of this shape the diagonal predecessor of an inner cell of the band is in
  the band, and so is the only predecessor of a cell of the first row or column: the
  cumulative cost of a cell of the band needs no infinite entry.
\<close>

definition sqdist :: "point \<Rightarrow> point \<Rightarrow> real" where
  "sqdist p q = (px p - px q)\<^sup>2 + (py p - py q)\<^sup>2 + (pz p - pz q)\<^sup>2"

definition in_band :: "int \<Rightarrow> nat \<Rightarrow> nat \<Rightarrow> bool" where
  "in_band R i j = (\<bar>int i - int j\<bar> \<le> R)"

datatype move = Diag | Up | Left

text \<open>
  The predecessor of least cumulative cost: \<open>d\<close> is the cost of the diagonal one, \<open>u\<close>
  of \<open>(i-1, j)\<close> and \<open>l\<close> of \<open>(i, j-1)\<close>, each \<open>None\<close> when outside the band. A later
  candidate wins only when strictly smaller.
\<close>

definition best_pred :: "real \<Rightarrow> real option \<Rightarrow> real option \<Rightarrow> move \<times> real" where
  "best_pred d u l =
     (let b1 = (case u of
                  None \<Rightarrow> (Diag, d)
                | Some cu \<Rightarrow> if cu < d then (Up, cu) else (Diag, d))
      in case l of
           None \<Rightarrow> b1
         | Some cl \<Rightarrow> if cl < snd b1 then (Left, cl) else b1)"

fun acc_cost :: "trajectory \<Rightarrow> trajectory \<Rightarrow> int \<Rightarrow> nat \<Rightarrow> nat \<Rightarrow> real" where
  "acc_cost s1 s2 R 0 0 = sqdist (s1 ! 0) (s2 ! 0)"
| "acc_cost s1 s2 R 0 (Suc j) = sqdist (s1 ! 0) (s2 ! Suc j) + acc_cost s1 s2 R 0 j"
| "acc_cost s1 s2 R (Suc i) 0 = sqdist (s1 ! Suc i) (s2 ! 0) + acc_cost s1 s2 R i 0"
| "acc_cost s1 s2 R (Suc i) (Suc j) =
     sqdist (s1 ! Suc i) (s2 ! Suc j) +
     snd (best_pred (acc_cost s1 s2 R i j)
            (if in_band R i (Suc j) then Some (acc_cost s1 s2 R i (Suc j)) else None)
            (if in_band R (Suc i) j then Some (acc_cost s1 s2 R (Suc i) j) else None))"

text \<open>The path from a cell back to \<open>(0, 0)\<close>, the cell itself first.\<close>

fun backtrack :: "trajectory \<Rightarrow> trajectory \<Rightarrow> int \<Rightarrow> nat \<Rightarrow> nat \<Rightarrow> (nat \<times> nat) list" where
  "backtrack s1 s2 R 0 0 = [(0, 0)]"
| "backtrack s1 s2 R 0 (Suc j) = (0, Suc j) # backtrack s1 s2 R 0 j"
| "backtrack s1 s2 R (Suc i) 0 = (Suc i, 0) # backtrack s1 s2 R i 0"
| "backtrack s1 s2 R (Suc i) (Suc j) =
     (Suc i, Suc j) #
     (case fst (best_pred (acc_cost s1 s2 R i j)
                  (if in_band R i (Suc j) then Some (acc_cost s1 s2 R i (Suc j)) else None)
                  (if in_band R (Suc i) j then Some (acc_cost s1 s2 R (Suc i) j) else None)) of
        Diag \<Rightarrow> backtrack s1 s2 R i j
      | Up \<Rightarrow> backtrack s1 s2 R i (Suc j)
      | Left \<Rightarrow> backtrack s1 s2 R (Suc i) j)"

definition dtw_path :: "trajectory \<Rightarrow> trajectory \<Rightarrow> int \<Rightarrow> error + ((nat \<times> nat) list \<times> real)" where
  "dtw_path s1 s2 radius =
     (if length s1 < 2 \<or> length s2 < 2 then Inl InvalidInputError
      else
        let n = length s1; m = length s2;
            R = max radius \<bar>int n - int m\<bar>
        in Inr (rev (backtrack s1 s2 R (n - 1) (m - 1)),
                sqrt (acc_cost s1 s2 R (n - 1) (m - 1))))"

section \<open>Error metrics and score\<close>

text \<open>
  \<^verbatim>\<open>round(x, 2)\<close>, line 135: \<open>x\<close> scaled by 100, rounded to the nearest integer, a tie
  to the even one, and scaled back.
\<close>

definition round_half_even :: "real \<Rightarrow> int" where
  "round_half_even x =
     (let f = \<lfloor>x\<rfloor>; d = x - of_int f
      in if d < 1 / 2 then f
         else if d > 1 / 2 then f + 1
         else if even f then f else f + 1)"

definition py_round2 :: "real \<Rightarrow> real" where
  "py_round2 x = of_int (round_half_even (x * 100)) / 100"

text \<open>
  The loop of lines 121 to 126: the squared differences of each axis, summed over the
  pairs of the path.
\<close>

definition sq_err_step :: "trajectory \<Rightarrow> trajectory \<Rightarrow> nat \<times> nat \<Rightarrow> point \<Rightarrow> point" where
  "sq_err_step tc qc ij acc =
     (px acc + (px (tc ! fst ij) - px (qc ! snd ij))\<^sup>2,
      py acc + (py (tc ! fst ij) - py (qc ! snd ij))\<^sup>2,
      pz acc + (pz (tc ! fst ij) - pz (qc ! snd ij))\<^sup>2)"

definition axis_sq_err :: "trajectory \<Rightarrow> trajectory \<Rightarrow> (nat \<times> nat) list \<Rightarrow> point" where
  "axis_sq_err tc qc path = fold (sq_err_step tc qc) path (0, 0, 0)"

text \<open>Line 133, the score before rounding.\<close>

definition final_score :: "real \<Rightarrow> real \<Rightarrow> real" where
  "final_score sensitivity global_rmse = 100 * exp (- sensitivity * global_rmse)"

text \<open>
  Steps 2 to 5 of \<^verbatim>\<open>calculate_mdtw_with_sensitivity\<close>, lines 111 to 135, on the two
  centred trajectories. The result is \<^verbatim>\<open>(score, global_rmse, (rmse_x, rmse_y, rmse_z))\<close>;
  an exception of \<^verbatim>\<open>dtw_path\<close> goes through to the caller.
\<close>

definition mdtw_metrics ::
  "trajectory \<Rightarrow> trajectory \<Rightarrow> real \<Rightarrow> int \<Rightarrow> error + (real \<times> real \<times> point)" where
  "mdtw_metrics template_centered query_centered sensitivity radius =
     (case dtw_path template_centered query_centered radius of
        Inl e \<Rightarrow> Inl e
      | Inr (optimal_path, sim_dist) \<Rightarrow>
          let path_length = real (length optimal_path);
              global_rmse = sim_dist / sqrt path_length;
              sq_err = axis_sq_err template_centered query_centered optimal_path;
              rmse_x = sqrt (px sq_err / path_length);
              rmse_y = sqrt (py sq_err / path_length);
              rmse_z = sqrt (pz sq_err / path_length)
          in Inr (py_round2 (final_score sensitivity global_rmse),
                  global_rmse, (rmse_x, rmse_y, rmse_z)))"

text \<open>
  \<^verbatim>\<open>calculate_mdtw_with_sensitivity(template, query, sensitivity, radius)\<close>, lines 103 to
  135, on the values of the two arrays: step 1 centres each trajectory on its mean.
\<close>

definition calculate_mdtw_with_sensitivity ::
  "trajectory \<Rightarrow> trajectory \<Rightarrow> real \<Rightarrow> int \<Rightarrow> error + (real \<times> real \<times> point)" where
  "calculate_mdtw_with_sensitivity template query sensitivity radius =
     (let template_centered = np_sub_rows template (np_mean_axis0 template);
          query_centered = np_sub_rows query (np_mean_axis0 query)
      in mdtw_metrics template_centered query_centered sensitivity radius)"

section \<open>The analysis\<close>

text \<open>
  The computation of \<^verbatim>\<open>run_analysis\<close>, lines 235 to 242 (the same as lines 236 to 243
  of \<^verbatim>\<open>analyze\<close> in \<^verbatim>\<open>server.py\<close>), on the two arrays as \<^verbatim>\<open>extract_hand_data\<close>
  returns them: the comparison with the default radius 10, the range of motion, the
  grade of each axis, their mean and the shape grade. Reading the files, the noise, the
  report text and the plot are left out.
\<close>

record analysis =
  score :: real
  global_rmse :: real
  axis_rmse :: point
  rom_ratio :: pyfloat
  rom_ratios :: fvec
  rom_axis_grades :: "int option list"
  avg_rom_grade :: pyfloat
  shape_grade :: int

definition run_analysis :: "array \<Rightarrow> array \<Rightarrow> real \<Rightarrow> real \<Rightarrow> error + analysis" where
  "run_analysis ref_data pat_data sensitivity shape_limit_m =
     (case calculate_mdtw_with_sensitivity (array_values ref_data) (array_values pat_data)
             sensitivity 10 of
        Inl e \<Rightarrow> Inl e
      | Inr (sc, g_rmse, ax_rmse) \<Rightarrow>
          (case calculate_rom_metrics_np ref_data pat_data of
             Inl e \<Rightarrow> Inl e
           | Inr (ratio, ratios) \<Rightarrow>
               (let grades = map get_rom_grade [fx ratios, fy ratios, fz ratios]
                in (case np_mean_grades grades of
                      Inl e \<Rightarrow> Inl e
                    | Inr avg \<Rightarrow>
                        Inr (\<lparr>score = sc, global_rmse = g_rmse, axis_rmse = ax_rmse,
                              rom_ratio = ratio, rom_ratios = ratios,
                              rom_axis_grades = grades, avg_rom_grade = avg,
                              shape_grade =
                                get_shape_grade (Fin g_rmse) (Fin shape_limit_m)\<rparr>)))))"

section \<open>The arrays as objects\<close>

text \<open>
  numpy arrays are mutable objects that the functions receive by reference, and line 56
  writes into one in place. Which array a statement writes does not depend on the
  dtype; the store holds the values of float arrays. To say which arrays a call writes, the two functions are
  modelled a second time on a store: a map from addresses to arrays and the next free
  address. An operation of numpy that returns a new array allocates it at the next free
  address; the masked assignment overwrites the array at the address it is given.
  An address that does not hold an array of the expected shape ends the run with
  \<^verbatim>\<open>TypeError\<close>: the callers pass \<open>N \<times> 3\<close> arrays only.
\<close>

datatype ndarray = Arr2 trajectory | Arr1 point

record store =
  cells :: "nat \<rightharpoonup> ndarray"
  next_addr :: nat

definition alloc :: "store \<Rightarrow> ndarray \<Rightarrow> (error + nat) \<times> store" where
  "alloc s v =
     (Inr (next_addr s),
      s\<lparr>cells := (cells s)(next_addr s \<mapsto> v), next_addr := Suc (next_addr s)\<rparr>)"

definition get_traj :: "store \<Rightarrow> nat \<Rightarrow> error + trajectory" where
  "get_traj s a = (case cells s a of Some (Arr2 t) \<Rightarrow> Inr t | _ \<Rightarrow> Inl TypeError)"

definition get_vec :: "store \<Rightarrow> nat \<Rightarrow> error + point" where
  "get_vec s a = (case cells s a of Some (Arr1 v) \<Rightarrow> Inr v | _ \<Rightarrow> Inl TypeError)"

text \<open>One statement after another: an exception ends the run in the store it left.\<close>

definition bind_st ::
  "(error + 'a) \<times> store \<Rightarrow> ('a \<Rightarrow> store \<Rightarrow> (error + 'b) \<times> store) \<Rightarrow> (error + 'b) \<times> store" where
  "bind_st m f = (case m of (Inl e, s) \<Rightarrow> (Inl e, s) | (Inr x, s) \<Rightarrow> f x s)"

text \<open>A computation that reads the store and leaves it as it is.\<close>

definition pure_st :: "store \<Rightarrow> error + 'a \<Rightarrow> (error + 'a) \<times> store" where
  "pure_st s r = (r, s)"

definition np_ptp_st :: "store \<Rightarrow> nat \<Rightarrow> (error + nat) \<times> store" where
  "np_ptp_st s a =
     bind_st (pure_st s (get_traj s a)) (\<lambda>t s.
     bind_st (pure_st s (np_ptp_axis0 t)) (\<lambda>v s. alloc s (Arr1 v)))"

definition np_mean_st :: "store \<Rightarrow> nat \<Rightarrow> (error + nat) \<times> store" where
  "np_mean_st s a =
     bind_st (pure_st s (get_traj s a)) (\<lambda>t s. alloc s (Arr1 (np_mean_axis0 t)))"

definition np_sub_st :: "store \<Rightarrow> nat \<Rightarrow> nat \<Rightarrow> (error + nat) \<times> store" where
  "np_sub_st s a c =
     bind_st (pure_st s (get_traj s a)) (\<lambda>t s.
     bind_st (pure_st s (get_vec s c)) (\<lambda>v s. alloc s (Arr2 (np_sub_rows t v))))"

definition np_div_st :: "store \<Rightarrow> nat \<Rightarrow> nat \<Rightarrow> (error + nat) \<times> store" where
  "np_div_st s a b =
     bind_st (pure_st s (get_vec s a)) (\<lambda>u s.
     bind_st (pure_st s (get_vec s b)) (\<lambda>v s. alloc s (Arr1 (vec_div u v))))"

text \<open>\<^verbatim>\<open>a[a == 0] = 1e-6\<close>: the array at the address is overwritten.\<close>

definition mask_assign_st :: "store \<Rightarrow> nat \<Rightarrow> (error + unit) \<times> store" where
  "mask_assign_st s a =
     bind_st (pure_st s (get_vec s a)) (\<lambda>v s.
       (Inr (), s\<lparr>cells := (cells s)(a \<mapsto> Arr1 (mask_assign_zero v))\<rparr>))"

text \<open>
  \<^verbatim>\<open>calculate_rom_metrics\<close> on the store. It returns the mean ratio and the address
  of the array of the ratios.
\<close>

definition calculate_rom_metrics_st ::
  "store \<Rightarrow> nat \<Rightarrow> nat \<Rightarrow> (error + (real \<times> nat)) \<times> store" where
  "calculate_rom_metrics_st s ref_data pat_data =
     bind_st (np_ptp_st s ref_data) (\<lambda>ref_range s.
     bind_st (np_ptp_st s pat_data) (\<lambda>pat_range s.
     bind_st (mask_assign_st s ref_range) (\<lambda>_ s.
     bind_st (np_div_st s pat_range ref_range) (\<lambda>ratios s.
     bind_st (pure_st s (get_vec s ratios)) (\<lambda>v s.
       (Inr (vec_mean v, ratios), s))))))"

text \<open>
  \<^verbatim>\<open>calculate_mdtw_with_sensitivity\<close> on the store. The alignment routine and the loop
  read the two centred arrays; the result holds numbers only.
\<close>

definition calculate_mdtw_with_sensitivity_st ::
  "store \<Rightarrow> nat \<Rightarrow> nat \<Rightarrow> real \<Rightarrow> int \<Rightarrow> (error + (real \<times> real \<times> point)) \<times> store" where
  "calculate_mdtw_with_sensitivity_st s template query sensitivity radius =
     bind_st (np_mean_st s template) (\<lambda>template_mean s.
     bind_st (np_sub_st s template template_mean) (\<lambda>template_centered s.
     bind_st (np_mean_st s query) (\<lambda>query_mean s.
     bind_st (np_sub_st s query query_mean) (\<lambda>query_centered s.
     bind_st (pure_st s (get_traj s template_centered)) (\<lambda>tc s.
     bind_st (pure_st s (get_traj s query_centered)) (\<lambda>qc s.
       pure_st s (mdtw_metrics tc qc sensitivity radius)))))))"

section \<open>The grading tables as the specification words them\<close>

text \<open>
  The table of the ROM grade, row by row: \<open>rom_grade_table ratio g\<close> holds when a row
  of the table gives the grade \<open>g\<close> to the ratio.
\<close>

definition rom_grade_table :: "real \<Rightarrow> int \<Rightarrow> bool" where
  "rom_grade_table ratio g =
     ((ratio < 0.50 \<or> ratio > 1.50) \<and> g = 0 \<or>
      (0.95 \<le> ratio \<and> ratio \<le> 1.05) \<and> g = 10 \<or>
      (0.90 \<le> ratio \<and> ratio < 0.95) \<and> g = 9 \<or>
      (0.70 \<le> ratio \<and> ratio < 0.90) \<and> g = 8 \<or>
      (0.50 \<le> ratio \<and> ratio < 0.70) \<and> g = 7 \<or>
      (1.05 < ratio \<and> ratio \<le> 1.10) \<and> g = 9 \<or>
      (1.10 < ratio \<and> ratio \<le> 1.30) \<and> g = 8 \<or>
      (1.30 < ratio \<and> ratio \<le> 1.50) \<and> g = 7)"

text \<open>
  The shape grade in the words of the specification: the limit is cut into 5 equal
  steps; above the limit the grade is 0, otherwise 10 minus the floor of
  \<open>rmse / step\<close>, clamped to the range from 6 to 10.
\<close>

definition shape_grade_floor :: "real \<Rightarrow> real \<Rightarrow> int" where
  "shape_grade_floor rmse limit =
     (if rmse > limit then 0
      else max 6 (min 10 (10 - \<lfloor>rmse / (limit / 5)\<rfloor>)))"

section \<open>Evaluation and auxiliary facts\<close>

lemmas point_defs = px_def py_def pz_def

lemmas compare_defs = fl_gt_def fl_ge_def

lemmas status_defs =
  CRITICAL_FAILURE_def EXCELLENT_def RESTRICTED_def EXCESSIVE_def MILD_DEVIATION_def

lemmas np_defs =
  calculate_rom_metrics_np_def np_ptp_def np_ptp_axis0_def assign_where_zero_def
  float_where_zero_def int_where_zero_def int_cast_def np_true_divide_def np_mean3_def
  fx_def fy_def fz_def wrap64_def real_point_def

lemmas mdtw_defs =
  calculate_mdtw_with_sensitivity_def mdtw_metrics_def dtw_path_def np_sub_rows_def
  np_mean_axis0_def sub_point_def sqdist_def in_band_def best_pred_def axis_sq_err_def
  sq_err_step_def

lemmas score_defs = final_score_def py_round2_def round_half_even_def

lemmas store_defs =
  bind_st_def pure_st_def alloc_def get_traj_def get_vec_def np_ptp_st_def np_mean_st_def
  np_sub_st_def np_div_st_def mask_assign_st_def

lemma two_Suc: "(2::nat) = Suc (Suc 0)"
  by simp

subsection \<open>Grades\<close>

lemma get_shape_grade_Fin:
  "get_shape_grade (Fin rmse) (Fin limit) =
     (if rmse > limit then 0
      else if rmse \<le> limit / 5 then 10
      else if rmse \<le> limit / 5 * 2 then 9
      else if rmse \<le> limit / 5 * 3 then 8
      else if rmse \<le> limit / 5 * 4 then 7
      else 6)"
  by (simp add: get_shape_grade_def compare_defs Let_def)

lemma get_shape_grade_range: "get_shape_grade (Fin rmse) (Fin limit) \<in> {0, 6, 7, 8, 9, 10}"
  by (simp add: get_shape_grade_Fin)

lemma sum_grades_None: "None \<in> set gs \<Longrightarrow> sum_grades gs = None"
  by (induction gs rule: sum_grades.induct) auto

subsection \<open>Ranges\<close>

lemma fold_max_ge: "(v::real) \<le> fold max vs v"
proof (induction vs arbitrary: v)
  case Nil
  show ?case by simp
next
  case (Cons a vs)
  have "v \<le> max a v" by simp
  also have "\<dots> \<le> fold max vs (max a v)" by (rule Cons.IH)
  finally show ?case by simp
qed

lemma fold_min_le: "fold min vs v \<le> (v::real)"
proof (induction vs arbitrary: v)
  case Nil
  show ?case by simp
next
  case (Cons a vs)
  have "fold min vs (min a v) \<le> min a v" by (rule Cons.IH)
  also have "\<dots> \<le> v" by simp
  finally show ?case by simp
qed

lemma ptp_nonneg: "0 \<le> ptp vs"
proof (cases vs)
  case Nil
  then show ?thesis by simp
next
  case (Cons v ws)
  have "fold min ws v \<le> fold max ws v"
    using fold_min_le [of ws v] fold_max_ge [of v ws] by linarith
  then show ?thesis using Cons by simp
qed

subsection \<open>Floats\<close>

lemma float_overflow_pos: "1099511627776 < float_overflow"
  by (simp add: float_overflow_def)

lemma fl_round_small: "\<bar>x\<bar> \<le> 1099511627776 \<Longrightarrow> fl_round x = Fin x"
  using float_overflow_pos by (auto simp: fl_round_def)

lemma fl_round_nonneg:
  assumes "0 \<le> x"
  shows "fl_round x = (if float_overflow \<le> x then PInf else Fin x)"
  using assms float_overflow_pos by (auto simp: fl_round_def)

lemma fl_round_Fin: "0 \<le> x \<Longrightarrow> x < float_overflow \<Longrightarrow> fl_round x = Fin x"
  by (simp add: fl_round_nonneg)

lemma replace_zero_pos: "0 \<le> r \<Longrightarrow> 0 < replace_zero r"
  by (simp add: replace_zero_def)

lemma float_where_zero_Fin: "float_where_zero (Fin r) = Fin (replace_zero r)"
  by (simp add: float_where_zero_def replace_zero_def)



lemma calculate_rom_metrics_np_float:
  assumes "ref_data \<noteq> []" and "pat_data \<noteq> []"
  shows "calculate_rom_metrics_np (FloatArr ref_data) (FloatArr pat_data) =
     Inr (np_mean3
            (fl_div (fl_round (ptp (map px pat_data)))
               (float_where_zero (fl_round (ptp (map px ref_data)))),
             fl_div (fl_round (ptp (map py pat_data)))
               (float_where_zero (fl_round (ptp (map py ref_data)))),
             fl_div (fl_round (ptp (map pz pat_data)))
               (float_where_zero (fl_round (ptp (map pz ref_data))))),
          (fl_div (fl_round (ptp (map px pat_data)))
               (float_where_zero (fl_round (ptp (map px ref_data)))),
           fl_div (fl_round (ptp (map py pat_data)))
               (float_where_zero (fl_round (ptp (map py ref_data)))),
           fl_div (fl_round (ptp (map pz pat_data)))
               (float_where_zero (fl_round (ptp (map pz ref_data))))))"
  using assms
  by (simp add: calculate_rom_metrics_np_def np_ptp_def np_ptp_axis0_def assign_where_zero_def
      np_true_divide_def fx_def fy_def fz_def point_defs Let_def)

text \<open>
  Where no range, no ratio and no sum of ratios overflows, the function on float arrays
  returns the numbers of \<open>calculate_rom_metrics\<close>.
\<close>

lemma axis_ratio_Fin:
  assumes "p / replace_zero r < float_overflow / 3"
    and "0 \<le> p" and "0 \<le> r"
    and "p < float_overflow" and "r < float_overflow"
  shows "fl_div (fl_round p) (float_where_zero (fl_round r)) = Fin (p / replace_zero r)"
proof -
  have q: "0 \<le> p / replace_zero r"
    using assms(2) replace_zero_pos [OF assms(3)] by simp
  have "p / replace_zero r < float_overflow"
    using assms(1) float_overflow_pos by linarith
  then have "fl_round (p / replace_zero r) = Fin (p / replace_zero r)"
    using q by (rule fl_round_Fin [rotated])
  moreover have "replace_zero r \<noteq> 0"
    using replace_zero_pos [OF assms(3)] by simp
  ultimately show ?thesis
    using assms(2-5) by (simp add: fl_round_Fin float_where_zero_Fin)
qed

lemma calculate_rom_metrics_np_values:
  assumes "calculate_rom_metrics ref_data pat_data = Inr (avg, v)"
    and "ptp (map px ref_data) < float_overflow" and "ptp (map py ref_data) < float_overflow"
    and "ptp (map pz ref_data) < float_overflow"
    and "ptp (map px pat_data) < float_overflow" and "ptp (map py pat_data) < float_overflow"
    and "ptp (map pz pat_data) < float_overflow"
    and "px v < float_overflow / 3" and "py v < float_overflow / 3"
    and "pz v < float_overflow / 3"
  shows "calculate_rom_metrics_np (FloatArr ref_data) (FloatArr pat_data) =
           Inr (Fin avg, (Fin (px v), Fin (py v), Fin (pz v)))"
proof -
  have ne: "ref_data \<noteq> []" "pat_data \<noteq> []"
    using assms(1) by (auto simp: calculate_rom_metrics_def np_ptp_axis0_def split: if_splits)
  let ?rx = "ptp (map px ref_data)" and ?ry = "ptp (map py ref_data)"
    and ?rz = "ptp (map pz ref_data)"
  let ?qx = "ptp (map px pat_data)" and ?qy = "ptp (map py pat_data)"
    and ?qz = "ptp (map pz pat_data)"
  have v: "px v = ?qx / replace_zero ?rx" "py v = ?qy / replace_zero ?ry"
      "pz v = ?qz / replace_zero ?rz"
    and a: "avg = (px v + py v + pz v) / 3"
    using assms(1) ne
    by (auto simp: calculate_rom_metrics_def np_ptp_axis0_def mask_assign_zero_def vec_div_def
        vec_mean_def point_defs Let_def)
  have x: "fl_div (fl_round ?qx) (float_where_zero (fl_round ?rx)) = Fin (px v)"
    unfolding v using assms(8) [unfolded v] ptp_nonneg ptp_nonneg assms(5) assms(2)
    by (rule axis_ratio_Fin)
  have y: "fl_div (fl_round ?qy) (float_where_zero (fl_round ?ry)) = Fin (py v)"
    unfolding v using assms(9) [unfolded v] ptp_nonneg ptp_nonneg assms(6) assms(3)
    by (rule axis_ratio_Fin)
  have z: "fl_div (fl_round ?qz) (float_where_zero (fl_round ?rz)) = Fin (pz v)"
    unfolding v using assms(10) [unfolded v] ptp_nonneg ptp_nonneg assms(7) assms(4)
    by (rule axis_ratio_Fin)
  have nn: "0 \<le> px v" "0 \<le> py v" "0 \<le> pz v"
    unfolding v using replace_zero_pos [OF ptp_nonneg] ptp_nonneg
    by (simp_all add: less_imp_le)
  have s1: "fl_round (px v + py v) = Fin (px v + py v)"
    using nn assms(8,9) float_overflow_pos by (intro fl_round_Fin) linarith+
  have s2: "fl_round (px v + py v + pz v) = Fin (px v + py v + pz v)"
    using nn assms(8-10) float_overflow_pos by (intro fl_round_Fin) linarith+
  have t: "0 \<le> px v + py v + pz v" "px v + py v + pz v < float_overflow"
    using nn assms(8-10) by linarith+
  have t3: "0 \<le> (px v + py v + pz v) / 3" "(px v + py v + pz v) / 3 \<le> px v + py v + pz v"
    using t(1) by simp_all
  have s3: "fl_round ((px v + py v + pz v) / 3) = Fin ((px v + py v + pz v) / 3)"
    using t3 t(2) by (intro fl_round_Fin) linarith+
  have m: "np_mean3 (Fin (px v), Fin (py v), Fin (pz v)) = Fin avg"
    by (simp add: np_mean3_def fx_def fy_def fz_def s1 s2 s3 a)
  show ?thesis
    unfolding calculate_rom_metrics_np_float [OF ne] x y z m ..
qed

subsection \<open>Rounding and score\<close>

lemma round_half_even_cases:
  "round_half_even x = \<lfloor>x\<rfloor> \<and> x - of_int \<lfloor>x\<rfloor> \<le> 1 / 2 \<or>
   round_half_even x = \<lfloor>x\<rfloor> + 1 \<and> 1 / 2 \<le> x - of_int \<lfloor>x\<rfloor>"
  by (auto simp: round_half_even_def Let_def)

lemma round_half_even_mono:
  assumes "x \<le> y"
  shows "round_half_even x \<le> round_half_even y"
proof (cases "\<lfloor>x\<rfloor> = \<lfloor>y\<rfloor>")
  case True
  then have "x - of_int \<lfloor>x\<rfloor> \<le> y - of_int \<lfloor>y\<rfloor>"
    using assms by simp
  then show ?thesis
    using True by (auto simp: round_half_even_def Let_def)
next
  case False
  then have "\<lfloor>x\<rfloor> + 1 \<le> \<lfloor>y\<rfloor>"
    using floor_mono [OF assms] by linarith
  then show ?thesis
    using round_half_even_cases [of x] round_half_even_cases [of y] by linarith
qed

lemma py_round2_mono: "x \<le> y \<Longrightarrow> py_round2 x \<le> py_round2 y"
  by (simp add: py_round2_def round_half_even_mono divide_right_mono)

lemma final_score_strict:
  assumes "0 < sensitivity" and "r1 < r2"
  shows "final_score sensitivity r2 < final_score sensitivity r1"
  using assms by (simp add: final_score_def)

lemma round_half_even_near:
  assumes "of_int n - 1 / 2 < x" and "x < of_int n + 1 / 2"
  shows "round_half_even x = n"
proof -
  have "\<lfloor>x\<rfloor> = n \<or> \<lfloor>x\<rfloor> = n - 1"
    using assms by linarith
  then show ?thesis
  proof
    assume "\<lfloor>x\<rfloor> = n"
    then show ?thesis using assms by (simp add: round_half_even_def Let_def)
  next
    assume "\<lfloor>x\<rfloor> = n - 1"
    then show ?thesis using assms by (simp add: round_half_even_def Let_def)
  qed
qed

lemma score_near_100:
  assumes "0 \<le> x" and "x \<le> 0.00004"
  shows "py_round2 (100 * exp (- x)) = 100"
proof -
  have lo: "1 - x \<le> exp (- x)"
    using exp_ge_add_one_self [of "- x"] by simp
  have hi: "exp (- x) \<le> 1"
    using assms by simp
  have a: "real_of_int 10000 - 1 / 2 < 100 * exp (- x) * 100"
    using lo assms by simp
  have c: "100 * exp (- x) * 100 \<le> 10000"
    using hi by linarith
  have b: "100 * exp (- x) * 100 < real_of_int 10000 + 1 / 2"
    unfolding of_int_numeral using c by linarith
  have "round_half_even (100 * exp (- x) * 100) = 10000"
    using a b by (rule round_half_even_near)
  then show ?thesis by (simp add: py_round2_def)
qed

lemma sqrt_tiny: "sqrt (1 / 10000000000) = 1 / 100000"
  by (rule real_sqrt_unique) (simp_all add: power2_eq_square)

lemma sqrt_tiny2: "sqrt (1 / 5000000000) = sqrt 2 / 100000"
proof -
  have "sqrt (1 / 5000000000) = sqrt (2 * (1 / 10000000000))" by simp
  also have "\<dots> = sqrt 2 * sqrt (1 / 10000000000)" by (rule real_sqrt_mult)
  finally show ?thesis by (simp add: sqrt_tiny)
qed

subsection \<open>The alignment model\<close>

text \<open>
  The path of the model stays in the band, and its pairs are indices of the two
  trajectories: the reads \<open>s1 ! i\<close> and \<open>s2 ! j\<close> of the model and of the loop of
  lines 123 to 126 are in range.
\<close>

lemma best_pred_Up: "fst (best_pred d u l) = Up \<Longrightarrow> u \<noteq> None"
  by (auto simp: best_pred_def Let_def split: option.splits if_splits)

lemma best_pred_Left: "fst (best_pred d u l) = Left \<Longrightarrow> l \<noteq> None"
  by (auto simp: best_pred_def Let_def split: option.splits if_splits)

lemma in_band_diag: "in_band R (Suc i) (Suc j) \<Longrightarrow> in_band R i j"
  by (simp add: in_band_def)

lemma in_band_row: "in_band R 0 (Suc j) \<Longrightarrow> in_band R 0 j"
  by (simp add: in_band_def)

lemma in_band_col: "in_band R (Suc i) 0 \<Longrightarrow> in_band R i 0"
  by (simp add: in_band_def)

lemma in_band_end:
  assumes "0 < n" and "0 < m"
  shows "in_band (max radius \<bar>int n - int m\<bar>) (n - 1) (m - 1)"
  using assms by (simp add: in_band_def max_def of_nat_diff)

lemma backtrack_in_band:
  "in_band R i j \<Longrightarrow> c \<in> set (backtrack s1 s2 R i j) \<Longrightarrow> in_band R (fst c) (snd c)"
proof (induction s1 s2 R i j rule: backtrack.induct)
  case (1 s1 s2 R)
  then show ?case by simp
next
  case (2 s1 s2 R j)
  then show ?case using in_band_row by auto
next
  case (3 s1 s2 R i)
  then show ?case using in_band_col by auto
next
  case (4 s1 s2 R i j)
  let ?m = "fst (best_pred (acc_cost s1 s2 R i j)
                  (if in_band R i (Suc j) then Some (acc_cost s1 s2 R i (Suc j)) else None)
                  (if in_band R (Suc i) j then Some (acc_cost s1 s2 R (Suc i) j) else None))"
  show ?case
  proof (cases "c = (Suc i, Suc j)")
    case True
    then show ?thesis using "4.prems" by simp
  next
    case False
    show ?thesis
    proof (cases ?m)
      case Diag
      then have "c \<in> set (backtrack s1 s2 R i j)"
        using "4.prems"(2) False by simp
      then show ?thesis
        using "4.IH"(1) [OF Diag in_band_diag [OF "4.prems"(1)]] by simp
    next
      case Up
      then have b: "in_band R i (Suc j)"
        using best_pred_Up [OF Up] by (simp split: if_splits)
      have "c \<in> set (backtrack s1 s2 R i (Suc j))"
        using "4.prems"(2) False Up by simp
      then show ?thesis
        using "4.IH"(2) [OF Up b] by simp
    next
      case Left
      then have b: "in_band R (Suc i) j"
        using best_pred_Left [OF Left] by (simp split: if_splits)
      have "c \<in> set (backtrack s1 s2 R (Suc i) j)"
        using "4.prems"(2) False Left by simp
      then show ?thesis
        using "4.IH"(3) [OF Left b] by simp
    qed
  qed
qed

lemma backtrack_bounds:
  "c \<in> set (backtrack s1 s2 R i j) \<Longrightarrow> fst c \<le> i \<and> snd c \<le> j"
  by (induction s1 s2 R i j rule: backtrack.induct) (fastforce split: move.splits)+

lemma backtrack_ends:
  "hd (backtrack s1 s2 R i j) = (i, j) \<and> last (backtrack s1 s2 R i j) = (0, 0) \<and>
   backtrack s1 s2 R i j \<noteq> []"
  by (induction s1 s2 R i j rule: backtrack.induct) (auto split: move.splits)

lemma dtw_path_band:
  assumes "dtw_path s1 s2 radius = Inr (path, d)" and "c \<in> set path"
  shows "in_band (max radius \<bar>int (length s1) - int (length s2)\<bar>) (fst c) (snd c) \<and>
         fst c < length s1 \<and> snd c < length s2"
proof -
  have ln: "2 \<le> length s1" "2 \<le> length s2"
    using assms(1) by (auto simp: dtw_path_def split: if_splits)
  then have ne: "s1 \<noteq> []" "s2 \<noteq> []"
    by auto
  let ?R = "max radius \<bar>int (length s1) - int (length s2)\<bar>"
  have p: "path = rev (backtrack s1 s2 ?R (length s1 - 1) (length s2 - 1))"
    using assms(1) ln by (simp add: dtw_path_def Let_def)
  then have m: "c \<in> set (backtrack s1 s2 ?R (length s1 - 1) (length s2 - 1))"
    using assms(2) by simp
  have "in_band ?R (length s1 - 1) (length s2 - 1)"
    using ne by (intro in_band_end) simp_all
  then have "in_band ?R (fst c) (snd c)"
    using m by (rule backtrack_in_band)
  moreover have "fst c \<le> length s1 - 1 \<and> snd c \<le> length s2 - 1"
    using m by (rule backtrack_bounds)
  moreover have "0 < length s1" "0 < length s2"
    using ne by simp_all
  ultimately show ?thesis
    by linarith
qed

subsection \<open>The comparison\<close>

lemma mdtw_metrics_returns:
  assumes "2 \<le> length tc" and "2 \<le> length qc"
  shows "\<exists>g a. mdtw_metrics tc qc sensitivity radius =
           Inr (py_round2 (final_score sensitivity g), g, a)"
  using assms by (simp add: mdtw_metrics_def dtw_path_def Let_def)

lemma calculate_mdtw_returns:
  assumes "2 \<le> length template" and "2 \<le> length query"
  shows "\<exists>g a. calculate_mdtw_with_sensitivity template query sensitivity radius =
           Inr (py_round2 (final_score sensitivity g), g, a)"
  unfolding calculate_mdtw_with_sensitivity_def Let_def
  by (rule mdtw_metrics_returns) (use assms in \<open>simp_all add: np_sub_rows_def\<close>)

lemma calculate_mdtw_short:
  assumes "length template < 2 \<or> length query < 2"
  shows "calculate_mdtw_with_sensitivity template query sensitivity radius =
           Inl InvalidInputError"
  using assms
  by (auto simp: calculate_mdtw_with_sensitivity_def mdtw_metrics_def dtw_path_def
      np_sub_rows_def Let_def)

lemma calculate_mdtw_error:
  "(calculate_mdtw_with_sensitivity template query sensitivity radius = Inl e) =
   (dtw_path (np_sub_rows template (np_mean_axis0 template))
      (np_sub_rows query (np_mean_axis0 query)) radius = Inl e)"
  by (simp add: calculate_mdtw_with_sensitivity_def mdtw_metrics_def Let_def
      split: sum.splits prod.splits)

lemma calculate_mdtw_score:
  assumes "calculate_mdtw_with_sensitivity template query sensitivity radius = Inr (sc, g, a)"
  shows "sc = py_round2 (final_score sensitivity g)"
  using assms
  by (auto simp: calculate_mdtw_with_sensitivity_def mdtw_metrics_def Let_def
      split: sum.splits prod.splits)

subsection \<open>Concrete runs\<close>

lemma worked_scenario_eval:
  "run_analysis (FloatArr [(0, 0, 0), (1, 0, 0), (2, 0, 0)])
     (FloatArr [(0, 0, 0), (1, 0, 0), (2, 0, 0)]) 3.0 0.10 =
     Inr \<lparr>score = 100, global_rmse = 0, axis_rmse = (0, 0, 0),
          rom_ratio = Fin (1 / 3), rom_ratios = (Fin 1, Fin 0, Fin 0),
          rom_axis_grades = [Some 10, Some 0, Some 0], avg_rom_grade = Fin (10 / 3),
          shape_grade = 10\<rparr>"
  by (simp add: run_analysis_def mdtw_defs np_defs score_defs point_defs two_Suc
      fl_round_small get_rom_grade_def get_shape_grade_def np_mean_grades_def compare_defs
      Let_def)

lemma worked_scenario_int64_eval:
  "run_analysis (IntArr [(0, 0, 0), (1, 0, 0), (2, 0, 0)])
     (IntArr [(0, 0, 0), (1, 0, 0), (2, 0, 0)]) 3.0 0.10 = Inl TypeError"
  by (simp add: run_analysis_def mdtw_defs np_defs score_defs point_defs two_Suc
      fl_round_small get_rom_grade_def get_shape_grade_def np_mean_grades_def compare_defs
      Let_def)

lemma worked_scenario_int64_rom:
  "calculate_rom_metrics_np (IntArr [(0, 0, 0), (1, 0, 0), (2, 0, 0)])
     (IntArr [(0, 0, 0), (1, 0, 0), (2, 0, 0)]) = Inr (NaN, (Fin 1, NaN, NaN))"
  by (simp add: np_defs point_defs fl_round_small Let_def)

lemma nonpositive_config_eval:
  "calculate_mdtw_with_sensitivity [(0, 0, 0), (1, 0, 0)] [(0, 0, 0), (1, 0, 0)] 0 0 =
     Inr (100, 0, (0, 0, 0)) \<and>
   calculate_mdtw_with_sensitivity [(0, 0, 0), (1, 0, 0)] [(0, 0, 0), (1, 0, 0)] (- 3) 10 =
     Inr (100, 0, (0, 0, 0)) \<and>
   get_shape_grade (Fin 0) (Fin 0) = 10 \<and>
   get_shape_grade (Fin 0) (Fin (- 1)) = 0"
  by (simp add: mdtw_defs score_defs point_defs two_Suc get_shape_grade_def compare_defs Let_def)

lemma identical_eval:
  "calculate_mdtw_with_sensitivity [(0, 0, 0), (1, 0, 0)] [(0, 0, 0), (1, 0, 0)] 3.0 10 =
     Inr (py_round2 (final_score 3.0 0), 0, (0, 0, 0))"
  by (simp add: mdtw_defs point_defs two_Suc Let_def)

lemma tiny_offset_eval:
  "calculate_mdtw_with_sensitivity [(0, 0, 0), (1, 0, 0)] [(0, 0, 0), (1, 0, 0.00002)] 3.0 10 =
     Inr (py_round2 (final_score 3.0 0.00001), 0.00001, (0, 0, 0.00001))"
  by (simp add: mdtw_defs point_defs two_Suc sqrt_tiny sqrt_tiny2 Let_def)

lemma scores_equal_eval:
  "py_round2 (final_score 3.0 0) = 100 \<and> py_round2 (final_score 3.0 0.00001) = 100"
  using score_near_100 [of 0] score_near_100 [of "0.00003"]
  by (simp add: final_score_def)





subsection \<open>Runs on the store\<close>

lemma calculate_mdtw_st_run:
  assumes "cells s template = Some (Arr2 T)" and "cells s query = Some (Arr2 Q)"
    and "template < next_addr s" and "query < next_addr s"
  shows "calculate_mdtw_with_sensitivity_st s template query sensitivity radius =
     (calculate_mdtw_with_sensitivity T Q sensitivity radius,
      s\<lparr>cells := (cells s)
           (next_addr s \<mapsto> Arr1 (np_mean_axis0 T),
            Suc (next_addr s) \<mapsto> Arr2 (np_sub_rows T (np_mean_axis0 T)),
            Suc (Suc (next_addr s)) \<mapsto> Arr1 (np_mean_axis0 Q),
            Suc (Suc (Suc (next_addr s))) \<mapsto> Arr2 (np_sub_rows Q (np_mean_axis0 Q))),
         next_addr := Suc (Suc (Suc (Suc (next_addr s))))\<rparr>)"
  using assms
  by (simp add: calculate_mdtw_with_sensitivity_st_def calculate_mdtw_with_sensitivity_def
      store_defs Let_def)

lemma calculate_rom_st_run:
  assumes "cells s ref_data = Some (Arr2 T)" and "cells s pat_data = Some (Arr2 Q)"
    and "ref_data < next_addr s" and "pat_data < next_addr s"
  shows "calculate_rom_metrics_st s ref_data pat_data =
     (case np_ptp_axis0 T of
        Inl e \<Rightarrow> (Inl e, s)
      | Inr rr \<Rightarrow>
          (case np_ptp_axis0 Q of
             Inl e \<Rightarrow> (Inl e, s\<lparr>cells := (cells s)(next_addr s \<mapsto> Arr1 rr),
                               next_addr := Suc (next_addr s)\<rparr>)
           | Inr pr \<Rightarrow>
               (Inr (vec_mean (vec_div pr (mask_assign_zero rr)), Suc (Suc (next_addr s))),
                s\<lparr>cells := (cells s)
                     (next_addr s \<mapsto> Arr1 (mask_assign_zero rr),
                      Suc (next_addr s) \<mapsto> Arr1 pr,
                      Suc (Suc (next_addr s)) \<mapsto> Arr1 (vec_div pr (mask_assign_zero rr))),
                   next_addr := Suc (Suc (Suc (next_addr s)))\<rparr>)))"
  using assms
  by (auto simp: calculate_rom_metrics_st_def store_defs Let_def fun_upd_twist
      split: sum.splits)

section \<open>The claims\<close>

text \<open>
  C1, as the code has it, for arrays of dtype float64. For the reference
  \<open>[(0,0,0), (1,0,0), (2,0,0)]\<close> and an identical query, with sensitivity 3.0, radius
  10 and shape limit 0.10, the analysis gives the score 100.00, the global RMSE 0, the
  shape grade 10, the ratios \<open>(1, 0, 0)\<close> of the three axes, the overall ROM ratio 1/3
  and the ROM grades \<open>[10, 0, 0]\<close>: the reference does not move on the axes y and z,
  its zero range there is replaced by the epsilon, and the patient's range 0 divided by
  it is 0.
\<close>

theorem worked_scenario:
  "run_analysis (FloatArr [(0, 0, 0), (1, 0, 0), (2, 0, 0)])
     (FloatArr [(0, 0, 0), (1, 0, 0), (2, 0, 0)]) 3.0 0.10 =
     Inr \<lparr>score = 100, global_rmse = 0, axis_rmse = (0, 0, 0),
          rom_ratio = Fin (1 / 3), rom_ratios = (Fin 1, Fin 0, Fin 0),
          rom_axis_grades = [Some 10, Some 0, Some 0], avg_rom_grade = Fin (10 / 3),
          shape_grade = 10\<rparr>"
  by (rule worked_scenario_eval)

text \<open>
  C1 as stated fails. On arrays of dtype float64 no result of that run has the overall
  ROM ratio 1 with the ROM grades \<open>[10, 10, 10]\<close>. On arrays of dtype int64 line 56
  stores 0, the ratios of the axes y and z are \<open>0 / 0\<close>, their grade is \<^verbatim>\<open>None\<close>, and
  the mean of the grades raises \<^verbatim>\<open>TypeError\<close>.
\<close>

theorem worked_scenario_counterexample:
  "\<not> (\<exists>a. run_analysis (FloatArr [(0, 0, 0), (1, 0, 0), (2, 0, 0)])
              (FloatArr [(0, 0, 0), (1, 0, 0), (2, 0, 0)]) 3.0 0.10 = Inr a \<and>
         score a = 100 \<and> global_rmse a = 0 \<and> shape_grade a = 10 \<and> rom_ratio a = Fin 1 \<and>
         rom_axis_grades a = [Some 10, Some 10, Some 10]) \<and>
   run_analysis (IntArr [(0, 0, 0), (1, 0, 0), (2, 0, 0)])
     (IntArr [(0, 0, 0), (1, 0, 0), (2, 0, 0)]) 3.0 0.10 = Inl TypeError"
  using worked_scenario_eval worked_scenario_int64_eval by auto

text \<open>
  C2, as the code has it. For every positive limit, \<^verbatim>\<open>get_shape_grade\<close> maps an RMSE
  equal to the limit to the grade 6 and an RMSE equal to a fifth of the limit to the
  grade 10; an RMSE above the limit has the grade 0, and otherwise the grade is 10 minus
  (the ceiling of \<open>rmse / step\<close>, minus 1), with \<open>step = limit / 5\<close>, clamped to the
  range from 6 to 10: each step holds its upper end.
\<close>

theorem get_shape_grade_steps:
  assumes "0 < limit"
  shows "get_shape_grade (Fin limit) (Fin limit) = 6 \<and>
         get_shape_grade (Fin (limit / 5)) (Fin limit) = 10 \<and>
         (rmse > limit \<longrightarrow> get_shape_grade (Fin rmse) (Fin limit) = 0) \<and>
         (rmse \<le> limit \<longrightarrow>
            get_shape_grade (Fin rmse) (Fin limit) =
              max 6 (min 10 (10 - (\<lceil>rmse / (limit / 5)\<rceil> - 1))))"
proof -
  let ?c = "\<lceil>rmse / (limit / 5)\<rceil>"
  have le: "(rmse \<le> limit / 5 * real_of_int k) = (?c \<le> k)" for k
    using assms by (simp add: ceiling_le_iff pos_divide_le_eq mult.commute)
  have c5: "?c \<le> 5" if "rmse \<le> limit"
    using that assms le [of 5] by simp
  have l1: "(rmse \<le> limit / 5) = (?c \<le> 1)" using le [of 1] by simp
  have l2: "(rmse \<le> limit / 5 * 2) = (?c \<le> 2)" using le [of 2] by simp
  have l3: "(rmse \<le> limit / 5 * 3) = (?c \<le> 3)" using le [of 3] by simp
  have l4: "(rmse \<le> limit / 5 * 4) = (?c \<le> 4)" using le [of 4] by simp
  have a: "get_shape_grade (Fin limit) (Fin limit) = 6"
    using assms by (simp add: get_shape_grade_Fin)
  have b: "get_shape_grade (Fin (limit / 5)) (Fin limit) = 10"
    using assms by (simp add: get_shape_grade_Fin)
  have c: "get_shape_grade (Fin rmse) (Fin limit) = 0" if "rmse > limit"
    using that by (simp add: get_shape_grade_Fin)
  have d: "get_shape_grade (Fin rmse) (Fin limit) = max 6 (min 10 (10 - (?c - 1)))"
    if "rmse \<le> limit"
  proof -
    define c where "c = ?c"
    have "c \<le> 5"
      unfolding c_def using that by (rule c5)
    moreover have "\<not> limit < rmse"
      using that by simp
    ultimately have "(if limit < rmse then 0
        else if c \<le> 1 then 10 else if c \<le> 2 then 9 else if c \<le> 3 then 8
        else if c \<le> 4 then 7 else 6) = max 6 (min 10 (10 - (c - 1)))"
      by auto
    then show ?thesis
      unfolding get_shape_grade_Fin l1 l2 l3 l4 c_def .
  qed
  show ?thesis using a b c d by blast
qed

theorem get_shape_grade_steps_witness:
  "(0::real) < 0.10 \<and> get_shape_grade (Fin 0.10) (Fin 0.10) = 6 \<and>
   get_shape_grade (Fin 0.02) (Fin 0.10) = 10 \<and>
   get_shape_grade (Fin 0.11) (Fin 0.10) = 0 \<and>
   get_shape_grade (Fin 0.05) (Fin 0.10) = 8"
proof -
  have h: "(0::real) < 0.10" by simp
  have c: "\<lceil>(0.05::real) / (0.10 / 5)\<rceil> = 3"
    by (simp add: ceiling_eq_iff)
  show ?thesis
    using get_shape_grade_steps [OF h, of "0.11"] get_shape_grade_steps [OF h, of "0.05"] c
    by simp
qed

text \<open>
  C2 as stated fails: with the limit 0.10 an RMSE of 0.10 has the grade 6, not 0, and an
  RMSE of 0.02, one step, has the grade 10 where 10 minus the floor of \<open>rmse / step\<close>
  is 9.
\<close>

theorem get_shape_grade_limit_counterexample:
  "get_shape_grade (Fin 0.10) (Fin 0.10) = 6 \<and>
   get_shape_grade (Fin 0.10) (Fin 0.10) \<noteq> 0 \<and>
   get_shape_grade (Fin 0.02) (Fin 0.10) = 10 \<and>
   shape_grade_floor 0.02 0.10 = 9"
  by (simp add: get_shape_grade_def shape_grade_floor_def compare_defs Let_def)

text \<open>
  C3. If either trajectory has fewer than 2 points,
  \<^verbatim>\<open>calculate_mdtw_with_sensitivity\<close> signals an \<^verbatim>\<open>InvalidInputError\<close> and returns no
  result; with 2 points or more in each it returns a result. The error is that of the
  alignment routine: the function has no test of its own and fails exactly when the
  routine fails on the centred trajectories, with the error of the routine.
\<close>

theorem short_trajectory_rejected:
  "(length template < 2 \<or> length query < 2 \<longrightarrow>
      calculate_mdtw_with_sensitivity template query sensitivity radius =
        Inl InvalidInputError) \<and>
   (2 \<le> length template \<and> 2 \<le> length query \<longrightarrow>
      (\<exists>sc g a. calculate_mdtw_with_sensitivity template query sensitivity radius =
         Inr (sc, g, a))) \<and>
   (calculate_mdtw_with_sensitivity template query sensitivity radius = Inl e) =
   (dtw_path (np_sub_rows template (np_mean_axis0 template))
      (np_sub_rows query (np_mean_axis0 query)) radius = Inl e)"
  using calculate_mdtw_short [of template query sensitivity radius]
    calculate_mdtw_returns [of template query sensitivity radius]
    calculate_mdtw_error [of template query sensitivity radius e]
  by blast

theorem short_trajectory_rejected_witness:
  "length [(1, 2, 3) :: point] < 2 \<and>
   calculate_mdtw_with_sensitivity [(1, 2, 3)] [(4, 5, 6), (7, 8, 9)] 3.0 10 =
     Inl InvalidInputError \<and>
   2 \<le> length [(0, 0, 0) :: point, (1, 0, 0)] \<and>
   (\<exists>sc g a. calculate_mdtw_with_sensitivity [(0, 0, 0), (1, 0, 0)] [(0, 0, 0), (1, 0, 0)]
      3.0 10 = Inr (sc, g, a))"
  using short_trajectory_rejected [of "[(1, 2, 3)]" "[(4, 5, 6), (7, 8, 9)]" "3.0" 10]
    short_trajectory_rejected [of "[(0, 0, 0), (1, 0, 0)]" "[(0, 0, 0), (1, 0, 0)]" "3.0" 10]
  by simp

text \<open>
  C4, as the code has it. For a fixed positive sensitivity the score never grows with
  the global RMSE: of two comparisons with global RMSE \<open>r1 < r2\<close> the second has a
  score less than or equal to the first. The score is \<open>100 * exp (- sensitivity * rmse)\<close>
  rounded to 2 decimal places, and this value before rounding is strictly decreasing.
\<close>

theorem score_monotone:
  assumes "0 < sensitivity"
    and "calculate_mdtw_with_sensitivity t1 q1 sensitivity radius1 = Inr (s1, r1, a1)"
    and "calculate_mdtw_with_sensitivity t2 q2 sensitivity radius2 = Inr (s2, r2, a2)"
    and "r1 < r2"
  shows "s2 \<le> s1 \<and>
         s1 = py_round2 (100 * exp (- sensitivity * r1)) \<and>
         s2 = py_round2 (100 * exp (- sensitivity * r2)) \<and>
         100 * exp (- sensitivity * r2) < 100 * exp (- sensitivity * r1)"
proof -
  have e1: "s1 = py_round2 (final_score sensitivity r1)"
    using assms(2) by (rule calculate_mdtw_score)
  have e2: "s2 = py_round2 (final_score sensitivity r2)"
    using assms(3) by (rule calculate_mdtw_score)
  have lt: "final_score sensitivity r2 < final_score sensitivity r1"
    using assms(1) assms(4) by (rule final_score_strict)
  then have "py_round2 (final_score sensitivity r2) \<le> py_round2 (final_score sensitivity r1)"
    by (intro py_round2_mono) simp
  then show ?thesis
    using e1 e2 lt by (simp add: final_score_def)
qed

theorem score_monotone_witness:
  "(0::real) < 3.0 \<and> (0::real) < 0.00001 \<and>
   calculate_mdtw_with_sensitivity [(0, 0, 0), (1, 0, 0)] [(0, 0, 0), (1, 0, 0)] 3.0 10 =
     Inr (py_round2 (final_score 3.0 0), 0, (0, 0, 0)) \<and>
   calculate_mdtw_with_sensitivity [(0, 0, 0), (1, 0, 0)] [(0, 0, 0), (1, 0, 0.00002)] 3.0 10 =
     Inr (py_round2 (final_score 3.0 0.00001), 0.00001, (0, 0, 0.00001)) \<and>
   py_round2 (final_score 3.0 0.00001) \<le> py_round2 (final_score 3.0 0) \<and>
   100 * exp (- 3.0 * 0.00001) < 100 * exp (- 3.0 * (0::real))"
proof -
  have h1: "(0::real) < 3.0" by simp
  have h4: "(0::real) < 0.00001" by simp
  show ?thesis
    using score_monotone [OF h1 identical_eval tiny_offset_eval h4] identical_eval
      tiny_offset_eval
    by simp
qed

text \<open>
  C4 as stated fails: a query equal to the reference has the global RMSE 0, a query
  that is off by 0.00002 on one coordinate has the global RMSE 0.00001, and both have
  the score 100.00.
\<close>

theorem score_strict_counterexample:
  "calculate_mdtw_with_sensitivity [(0, 0, 0), (1, 0, 0)] [(0, 0, 0), (1, 0, 0)] 3.0 10 =
     Inr (100, 0, (0, 0, 0)) \<and>
   calculate_mdtw_with_sensitivity [(0, 0, 0), (1, 0, 0)] [(0, 0, 0), (1, 0, 0.00002)] 3.0 10 =
     Inr (100, 0.00001, (0, 0, 0.00001)) \<and>
   (0::real) < 0.00001 \<and> \<not> (100::real) < 100"
  using identical_eval tiny_offset_eval scores_equal_eval by simp

text \<open>
  C5. On every real ratio \<^verbatim>\<open>get_rom_grade\<close> returns a grade, one of 0, 7, 8, 9 and 10,
  and it is the one grade that the table of the specification gives to the ratio; the
  ratios 0.95 and 1.05 have the grade 10, and 0.4999 and 1.5001 the grade 0.
\<close>

theorem get_rom_grade_table:
  "(\<exists>g. get_rom_grade (Fin ratio) = Some g \<and> g \<in> {0, 7, 8, 9, 10} \<and>
        (\<forall>g'. rom_grade_table ratio g' = (g' = g))) \<and>
   get_rom_grade (Fin 0.95) = Some 10 \<and> get_rom_grade (Fin 1.05) = Some 10 \<and>
   get_rom_grade (Fin 0.4999) = Some 0 \<and> get_rom_grade (Fin 1.5001) = Some 0"
  unfolding get_rom_grade_def rom_grade_table_def compare_defs
  by (auto simp: not_less not_le)

text \<open>
  C6. The status of the range of motion tests the mean grade first: below 1 it is
  CRITICAL FAILURE; else from 9 on it is EXCELLENT; else a ratio below 0.90 is
  RESTRICTED; else a ratio above 1.10 is EXCESSIVE; else it is MILD DEVIATION. The
  grades \<open>[10, 8, 0]\<close> have the mean 6, and with the mean 6 the status is not
  CRITICAL FAILURE, whatever the ratio.
\<close>

theorem rom_status_precedence:
  "(g < 1 \<longrightarrow> rom_status (Fin r) (Fin g) = CRITICAL_FAILURE) \<and>
   (1 \<le> g \<and> 9 \<le> g \<longrightarrow> rom_status (Fin r) (Fin g) = EXCELLENT) \<and>
   (1 \<le> g \<and> g < 9 \<and> r < 0.90 \<longrightarrow> rom_status (Fin r) (Fin g) = RESTRICTED) \<and>
   (1 \<le> g \<and> g < 9 \<and> 0.90 \<le> r \<and> r > 1.10 \<longrightarrow> rom_status (Fin r) (Fin g) = EXCESSIVE) \<and>
   (1 \<le> g \<and> g < 9 \<and> 0.90 \<le> r \<and> r \<le> 1.10 \<longrightarrow>
      rom_status (Fin r) (Fin g) = MILD_DEVIATION) \<and>
   np_mean_grades [Some 10, Some 8, Some 0] = Inr (Fin 6) \<and>
   rom_status ratio (Fin 6) \<noteq> CRITICAL_FAILURE"
  by (simp add: rom_status_def compare_defs np_mean_grades_def status_defs)

theorem rom_status_precedence_witness:
  "rom_status (Fin 0.5) (Fin 0) = CRITICAL_FAILURE \<and>
   rom_status (Fin 0.5) (Fin 9.5) = EXCELLENT \<and>
   rom_status (Fin 0.5) (Fin 6) = RESTRICTED \<and>
   rom_status (Fin 1.2) (Fin 6) = EXCESSIVE \<and>
   rom_status (Fin 1) (Fin 6) = MILD_DEVIATION"
  using rom_status_precedence [of 0 "0.5"] rom_status_precedence [of "9.5" "0.5"]
    rom_status_precedence [of 6 "0.5"] rom_status_precedence [of 6 "1.2"]
    rom_status_precedence [of 6 1]
  by simp




text \<open>
  C8, as the code has it. No value of the configuration is checked: for every
  sensitivity, radius and shape limit, positive or not, and trajectories of at least 2
  points each, \<^verbatim>\<open>calculate_mdtw_with_sensitivity\<close> returns a result with the score
  \<open>100 * exp (- sensitivity * rmse)\<close> rounded, and \<^verbatim>\<open>get_shape_grade\<close> returns one of
  the grades 0, 6, 7, 8, 9 and 10.
\<close>

theorem configuration_not_checked:
  assumes "2 \<le> length template" and "2 \<le> length query"
  shows "\<exists>g a. calculate_mdtw_with_sensitivity template query sensitivity radius =
             Inr (py_round2 (100 * exp (- sensitivity * g)), g, a) \<and>
           get_shape_grade (Fin g) (Fin shape_limit) \<in> {0, 6, 7, 8, 9, 10}"
proof -
  obtain g a where "calculate_mdtw_with_sensitivity template query sensitivity radius =
      Inr (py_round2 (final_score sensitivity g), g, a)"
    using calculate_mdtw_returns [OF assms] by blast
  then have "calculate_mdtw_with_sensitivity template query sensitivity radius =
      Inr (py_round2 (100 * exp (- sensitivity * g)), g, a)"
    by (simp add: final_score_def)
  then show ?thesis
    using get_shape_grade_range [of g shape_limit] by blast
qed

theorem configuration_not_checked_witness:
  "2 \<le> length [(0, 0, 0) :: point, (1, 0, 0)] \<and>
   (\<exists>g a. calculate_mdtw_with_sensitivity [(0, 0, 0), (1, 0, 0)] [(0, 0, 0), (1, 0, 0)] 0 0 =
           Inr (py_round2 (100 * exp (- 0 * g)), g, a) \<and>
         get_shape_grade (Fin g) (Fin 0) \<in> {0, 6, 7, 8, 9, 10})"
proof -
  have h: "2 \<le> length [(0, 0, 0) :: point, (1, 0, 0)]" by simp
  show ?thesis
    using configuration_not_checked [OF h h, of 0 0 0] h by simp
qed

text \<open>
  C8 as stated fails: with the sensitivity 0 and the radius 0, and with the sensitivity
  -3, the comparison returns a result, and with the shape limit 0 or -1
  \<^verbatim>\<open>get_shape_grade\<close> returns a grade.
\<close>

theorem configuration_counterexample:
  "calculate_mdtw_with_sensitivity [(0, 0, 0), (1, 0, 0)] [(0, 0, 0), (1, 0, 0)] 0 0 =
     Inr (100, 0, (0, 0, 0)) \<and>
   calculate_mdtw_with_sensitivity [(0, 0, 0), (1, 0, 0)] [(0, 0, 0), (1, 0, 0)] (- 3) 10 =
     Inr (100, 0, (0, 0, 0)) \<and>
   get_shape_grade (Fin 0) (Fin 0) = 10 \<and>
   get_shape_grade (Fin 0) (Fin (- 1)) = 0"
  by (rule nonpositive_config_eval)

text \<open>
  C9. A comparison leaves the arrays of the caller as they were. In a store where the
  addresses \<open>template\<close> and \<open>query\<close> hold two trajectories, after
  \<^verbatim>\<open>calculate_mdtw_with_sensitivity\<close> and then \<^verbatim>\<open>calculate_rom_metrics\<close> have run, both
  addresses hold the trajectories they held before, and so does every address that was
  allocated before the calls; the centred trajectories are new arrays at new addresses;
  and the results are those of the two functions on the values of the arrays.
\<close>

theorem inputs_not_mutated:
  assumes "cells s template = Some (Arr2 T)" and "cells s query = Some (Arr2 Q)"
    and "template < next_addr s" and "query < next_addr s"
    and "calculate_mdtw_with_sensitivity_st s template query sensitivity radius = (r1, s1)"
    and "calculate_rom_metrics_st s1 template query = (r2, s2)"
  shows "cells s1 template = Some (Arr2 T) \<and> cells s1 query = Some (Arr2 Q) \<and>
         cells s2 template = Some (Arr2 T) \<and> cells s2 query = Some (Arr2 Q) \<and>
         (\<forall>a. a < next_addr s \<longrightarrow> cells s2 a = cells s a) \<and>
         cells s1 (Suc (next_addr s)) = Some (Arr2 (np_sub_rows T (np_mean_axis0 T))) \<and>
         cells s1 (Suc (Suc (Suc (next_addr s)))) =
           Some (Arr2 (np_sub_rows Q (np_mean_axis0 Q))) \<and>
         r1 = calculate_mdtw_with_sensitivity T Q sensitivity radius \<and>
         (case r2 of
            Inl e \<Rightarrow> calculate_rom_metrics T Q = Inl e
          | Inr (avg, ratios) \<Rightarrow>
              (case cells s2 ratios of
                 Some (Arr1 v) \<Rightarrow> calculate_rom_metrics T Q = Inr (avg, v)
               | _ \<Rightarrow> False))"
proof -
  let ?n = "next_addr s"
  have s1: "s1 = s\<lparr>cells := (cells s)
           (?n \<mapsto> Arr1 (np_mean_axis0 T),
            Suc ?n \<mapsto> Arr2 (np_sub_rows T (np_mean_axis0 T)),
            Suc (Suc ?n) \<mapsto> Arr1 (np_mean_axis0 Q),
            Suc (Suc (Suc ?n)) \<mapsto> Arr2 (np_sub_rows Q (np_mean_axis0 Q))),
         next_addr := Suc (Suc (Suc (Suc ?n)))\<rparr>"
    and r1: "r1 = calculate_mdtw_with_sensitivity T Q sensitivity radius"
    using calculate_mdtw_st_run [OF assms(1-4), of sensitivity radius] assms(5) by simp_all
  have t1: "cells s1 template = Some (Arr2 T)" and q1: "cells s1 query = Some (Arr2 Q)"
    using assms(1-4) by (simp_all add: s1)
  have lt: "template < next_addr s1" "query < next_addr s1"
    using assms(3,4) by (simp_all add: s1)
  have n1: "next_addr s1 = Suc (Suc (Suc (Suc ?n)))"
    by (simp add: s1)
  note run2 = calculate_rom_st_run [OF t1 q1 lt, unfolded assms(6)]
  have frame2: "\<forall>a. a < next_addr s1 \<longrightarrow> cells s2 a = cells s1 a"
    using run2 by (auto split: sum.splits)
  have frame1: "\<forall>a. a < ?n \<longrightarrow> cells s1 a = cells s a"
    by (simp add: s1)
  have frame: "\<forall>a. a < ?n \<longrightarrow> cells s2 a = cells s a"
    using frame1 frame2 n1 by simp
  have res2: "case r2 of
            Inl e \<Rightarrow> calculate_rom_metrics T Q = Inl e
          | Inr (avg, ratios) \<Rightarrow>
              (case cells s2 ratios of
                 Some (Arr1 v) \<Rightarrow> calculate_rom_metrics T Q = Inr (avg, v)
               | _ \<Rightarrow> False)"
    using run2 by (auto simp: calculate_rom_metrics_def Let_def split: sum.splits)
  have c1: "cells s1 (Suc ?n) = Some (Arr2 (np_sub_rows T (np_mean_axis0 T)))"
    and c2: "cells s1 (Suc (Suc (Suc ?n))) = Some (Arr2 (np_sub_rows Q (np_mean_axis0 Q)))"
    by (simp_all add: s1)
  have t2: "cells s2 template = Some (Arr2 T)" and q2: "cells s2 query = Some (Arr2 Q)"
    using frame assms(1-4) by simp_all
  show ?thesis
    using t1 q1 t2 q2 frame c1 c2 r1 res2 by blast
qed

theorem inputs_not_mutated_witness:
  "(let s0 = \<lparr>cells = [0 \<mapsto> Arr2 [(0, 0, 0), (1, 0, 0)], 1 \<mapsto> Arr2 [(0, 0, 0), (2, 0, 0)]],
              next_addr = 2\<rparr>;
        s1 = snd (calculate_mdtw_with_sensitivity_st s0 0 1 3.0 10);
        s2 = snd (calculate_rom_metrics_st s1 0 1)
    in cells s0 0 = Some (Arr2 [(0, 0, 0), (1, 0, 0)]) \<and>
       cells s0 1 = Some (Arr2 [(0, 0, 0), (2, 0, 0)]) \<and>
       0 < next_addr s0 \<and> 1 < next_addr s0 \<and>
       cells s2 0 = Some (Arr2 [(0, 0, 0), (1, 0, 0)]) \<and>
       cells s2 1 = Some (Arr2 [(0, 0, 0), (2, 0, 0)]))"
proof -
  define s0 where "s0 = \<lparr>cells = [0 \<mapsto> Arr2 [(0, 0, 0), (1, 0, 0)],
      1 \<mapsto> Arr2 [(0, 0, 0), (2, 0, 0)]], next_addr = 2\<rparr>"
  have h1: "cells s0 0 = Some (Arr2 [(0, 0, 0), (1, 0, 0)])"
    and h2: "cells s0 1 = Some (Arr2 [(0, 0, 0), (2, 0, 0)])"
    and h3: "0 < next_addr s0" and h4: "1 < next_addr s0"
    by (simp_all add: s0_def)
  obtain r1 s1 where e1: "calculate_mdtw_with_sensitivity_st s0 0 1 3.0 10 = (r1, s1)"
    by (cases "calculate_mdtw_with_sensitivity_st s0 0 1 3.0 10") blast
  obtain r2 s2 where e2: "calculate_rom_metrics_st s1 0 1 = (r2, s2)"
    by (cases "calculate_rom_metrics_st s1 0 1") blast
  have "cells s2 0 = Some (Arr2 [(0, 0, 0), (1, 0, 0)]) \<and>
        cells s2 1 = Some (Arr2 [(0, 0, 0), (2, 0, 0)])"
    using inputs_not_mutated [OF h1 h2 h3 h4 e1 e2] by blast
  then show ?thesis
    using h1 h2 h3 h4 e1 e2 unfolding s0_def [symmetric] Let_def by simp
qed

text \<open>
  C10. On a ratio that is not a number \<^verbatim>\<open>get_rom_grade\<close> passes every test and returns
  no grade (\<^verbatim>\<open>None\<close>), which is none of 0, 7, 8, 9 and 10; the mean of a list of grades
  that holds the grade of such a ratio is then no number: numpy raises \<^verbatim>\<open>TypeError\<close>.
\<close>

theorem get_rom_grade_nan:
  "get_rom_grade NaN = None \<and>
   (\<forall>g \<in> {0, 7, 8, 9, 10}. get_rom_grade NaN \<noteq> Some g) \<and>
   (NaN \<in> set ratios \<longrightarrow> np_mean_grades (map get_rom_grade ratios) = Inl TypeError)"
proof -
  have n: "get_rom_grade NaN = None"
    by (simp add: get_rom_grade_def compare_defs)
  have "None \<in> set (map get_rom_grade ratios)" if "NaN \<in> set ratios"
    using that n by force
  then show ?thesis
    using n by (auto simp: np_mean_grades_def sum_grades_None)
qed

theorem get_rom_grade_nan_witness:
  "NaN \<in> set [Fin 1, NaN, Fin 1] \<and>
   np_mean_grades (map get_rom_grade [Fin 1, NaN, Fin 1]) = Inl TypeError \<and>
   map get_rom_grade [Fin 1, NaN, Fin 1] = [Some 10, None, Some 10]"
  using get_rom_grade_nan [of "[Fin 1, NaN, Fin 1]"]
  by (simp add: get_rom_grade_def compare_defs)

end
